theory Spec2Isabelle
  imports Main "HOL-Library.Word" "HOL-Library.Code_Target_Numeral"
begin

section \<open>JavaScript values used by the two screens\<close>

text \<open>
  The screens \<^verbatim>\<open>src/add.tsx\<close> and \<^verbatim>\<open>src/edit.tsx\<close> are TypeScript running on a
  JavaScript engine. A JavaScript string is a sequence of 16-bit code units; a literal of
  the source is written \<open>str ''...''\<close>.
\<close>

type_synonym code_unit = "16 word"

type_synonym jsstring = "code_unit list"

definition str :: "string \<Rightarrow> jsstring" where
  "str s = map of_char s"

text \<open>
  The Number values that occur here are NaN, the two infinities and integers:
  \<open>parseInt\<close> returns nothing else, and a reminder frequency is a number of days.
  \<open>Num n\<close> is the Number with the mathematical value \<open>n\<close>. The sign of zero is not
  represented.
\<close>

datatype jsnum = NaN | Num int | Infinity | NegInfinity

datatype jsval = JUndefined | JNull | JNum jsnum | JStr jsstring

fun typeof :: "jsval \<Rightarrow> string" where
  "typeof JUndefined = ''undefined''"
| "typeof JNull = ''object''"
| "typeof (JNum n) = ''number''"
| "typeof (JStr s) = ''string''"

text \<open>ToBoolean on a Number (\<^verbatim>\<open>!!x\<close>, and the left operand of \<^verbatim>\<open>x || 1\<close>).\<close>

fun toBoolean :: "jsnum \<Rightarrow> bool" where
  "toBoolean NaN = False"
| "toBoolean (Num n) = (n \<noteq> 0)"
| "toBoolean Infinity = True"
| "toBoolean NegInfinity = True"

text \<open>Number::equal, the comparison \<^verbatim>\<open>==\<close> and \<^verbatim>\<open>===\<close> make of two Numbers.\<close>

fun numberEqual :: "jsnum \<Rightarrow> jsnum \<Rightarrow> bool" where
  "numberEqual (Num a) (Num b) = (a = b)"
| "numberEqual Infinity Infinity = True"
| "numberEqual NegInfinity NegInfinity = True"
| "numberEqual _ _ = False"

text \<open>
  IsLooselyEqual (\<^verbatim>\<open>x == y\<close>) for a Number \<open>x\<close>: a Number is compared as it is, a String
  is first converted by StringToNumber, and \<^verbatim>\<open>undefined\<close> and \<^verbatim>\<open>null\<close> equal no Number.
  StringToNumber reads the whole numeric-literal grammar (fractions, exponents, radix
  prefixes, \<^verbatim>\<open>Infinity\<close>), whose results are not all integers; it is the parameter
  \<open>stringToNumber\<close>.
\<close>

definition isLooselyEqual :: "(jsstring \<Rightarrow> jsnum) \<Rightarrow> jsnum \<Rightarrow> jsval \<Rightarrow> bool" where
  "isLooselyEqual stringToNumber x y =
     (case y of
        JNum m \<Rightarrow> numberEqual x m
      | JStr s \<Rightarrow> numberEqual x (stringToNumber s)
      | JUndefined \<Rightarrow> False
      | JNull \<Rightarrow> False)"

subsection \<open>White space, \<^verbatim>\<open>String.prototype.trim\<close> and \<^verbatim>\<open>parseInt\<close>\<close>

text \<open>
  The code units that TrimString removes: the WhiteSpace code points (TAB, VT, FF,
  ZWNBSP and the Unicode space separators) and the LineTerminator code points (LF, CR,
  LS, PS).
\<close>

definition isWhiteSpace :: "code_unit \<Rightarrow> bool" where
  "isWhiteSpace c \<longleftrightarrow>
     c = 0x0009 \<or> c = 0x000B \<or> c = 0x000C \<or> c = 0xFEFF \<or>
     c = 0x0020 \<or> c = 0x00A0 \<or> c = 0x1680 \<or> (0x2000 \<le> c \<and> c \<le> 0x200A) \<or>
     c = 0x202F \<or> c = 0x205F \<or> c = 0x3000 \<or>
     c = 0x000A \<or> c = 0x000D \<or> c = 0x2028 \<or> c = 0x2029"

definition trimStart :: "jsstring \<Rightarrow> jsstring" where
  "trimStart s = dropWhile isWhiteSpace s"

definition trimEnd :: "jsstring \<Rightarrow> jsstring" where
  "trimEnd s = rev (dropWhile isWhiteSpace (rev s))"

definition trim :: "jsstring \<Rightarrow> jsstring" where
  "trim s = trimEnd (trimStart s)"

text \<open>
  The value of a code unit as a digit: \<^verbatim>\<open>0\<close> to \<^verbatim>\<open>9\<close>, then the letters \<^verbatim>\<open>a\<close> to \<^verbatim>\<open>z\<close>
  in either case for 10 to 35.
\<close>

definition digitValue :: "code_unit \<Rightarrow> nat option" where
  "digitValue c =
     (if 0x30 \<le> c \<and> c \<le> 0x39 then Some (unat c - 0x30)
      else if 0x61 \<le> c \<and> c \<le> 0x7A then Some (unat c - 0x61 + 10)
      else if 0x41 \<le> c \<and> c \<le> 0x5A then Some (unat c - 0x41 + 10)
      else None)"

definition isRadixDigit :: "nat \<Rightarrow> code_unit \<Rightarrow> bool" where
  "isRadixDigit R c = (case digitValue c of Some d \<Rightarrow> d < R | None \<Rightarrow> False)"

definition mathInt :: "nat \<Rightarrow> jsstring \<Rightarrow> nat" where
  "mathInt R Z = foldl (\<lambda>acc c. acc * R + (case digitValue c of Some d \<Rightarrow> d | None \<Rightarrow> 0)) 0 Z"

text \<open>
  The Number value for an integer: a double holds 53 significant bits, so an integer of
  more bits is rounded to the nearest integer of 53 significant bits, a tie going to the
  one whose last significant bit is zero, and what reaches \<open>2 ^ 1024\<close> is an infinity.
\<close>

fun bitLength :: "nat \<Rightarrow> nat" where
  "bitLength n = (if n = 0 then 0 else Suc (bitLength (n div 2)))"

definition roundToDouble :: "nat \<Rightarrow> nat" where
  "roundToDouble n =
     (let e = bitLength n - 53;
          q = n div 2 ^ e;
          r = n mod 2 ^ e
      in if 2 ^ e < 2 * r \<or> (2 * r = 2 ^ e \<and> odd q) then (q + 1) * 2 ^ e else q * 2 ^ e)"

definition numberValue :: "int \<Rightarrow> jsnum" where
  "numberValue x =
     (let m = roundToDouble (nat \<bar>x\<bar>)
      in if 2 ^ 1024 \<le> m then (if x < 0 then NegInfinity else Infinity)
         else Num (if x < 0 then - int m else int m))"

text \<open>
  \<^verbatim>\<open>parseInt(string)\<close> with no radix, on a String: leading white space is dropped, a
  sign is read, a \<^verbatim>\<open>0x\<close> or \<^verbatim>\<open>0X\<close> prefix selects radix 16, and the longest prefix of
  digits of the radix is the number, returned as its Number value. When that prefix is
  empty the result is NaN. ECMA-262 lets an implementation read a decimal numeral of more
  than 20 significant digits with the digits after the 20th replaced by zeros; here every
  digit is read.
\<close>

definition parseInt :: "jsstring \<Rightarrow> jsnum" where
  "parseInt inputString =
     (let S = trimStart inputString;
          sign = (if S \<noteq> [] \<and> hd S = 0x2D then - 1 else (1 :: int));
          S1 = (if S \<noteq> [] \<and> (hd S = 0x2B \<or> hd S = 0x2D) then tl S else S);
          hex = (2 \<le> length S1 \<and> (take 2 S1 = [0x30, 0x78] \<or> take 2 S1 = [0x30, 0x58]));
          R = (if hex then 16 else 10);
          S2 = (if hex then drop 2 S1 else S1);
          Z = takeWhile (isRadixDigit R) S2
      in if Z = [] then NaN else numberValue (sign * int (mathInt R Z)))"

subsection \<open>Objects\<close>

text \<open>
  An object literal is the list of its properties in source order. A later property of
  the same key overrides an earlier one.
\<close>

type_synonym jsobject = "(string \<times> jsval) list"

definition hasOwnProperty :: "jsobject \<Rightarrow> string \<Rightarrow> bool" where
  "hasOwnProperty obj k \<longleftrightarrow> k \<in> set (map fst obj)"

definition getProp :: "jsobject \<Rightarrow> string \<Rightarrow> jsval" where
  "getProp obj k = (case map_of (rev obj) k of Some v \<Rightarrow> v | None \<Rightarrow> JUndefined)"

text \<open>
  \<^verbatim>\<open>b && {...}\<close> is \<^verbatim>\<open>false\<close> (here \<open>None\<close>) or the object; spreading \<^verbatim>\<open>false\<close> into an
  object literal copies no property.
\<close>

definition andObject :: "bool \<Rightarrow> jsobject \<Rightarrow> jsobject option" where
  "andObject b obj = (if b then Some obj else None)"

definition spread :: "jsobject \<Rightarrow> jsobject option \<Rightarrow> jsobject" where
  "spread obj x = (case x of None \<Rightarrow> obj | Some props \<Rightarrow> obj @ props)"

section \<open>Data of the screens\<close>

text \<open>
  Modelled from the spec: the declaration of the cached plant record (\<^verbatim>\<open>interfaces\<close>,
  \<^verbatim>\<open>hooks/useGetPlantDetailsFromCache\<close>) is not under \<^verbatim>\<open>src/\<close>. The spec lists its fields
  (id, name, description, imgSrc, wateringReminderFrequency, createdAt) and calls the
  reminder frequency an integer number of days, zero when the plant has no reminder.
\<close>

record Plant =
  id' :: jsstring
  name :: jsstring
  description :: "jsstring option"
  imgSrc :: "jsstring option"
  wateringReminderFrequency :: int
  createdAt :: jsstring

text \<open>
  The interfaces \<^verbatim>\<open>AddPlantForm\<close> and \<^verbatim>\<open>EditPlantForm\<close> declare the same fields. An
  optional field that is absent is \<open>None\<close>. The source declares the frequency a number,
  but the text field writes a string into it (the source's comment: \<^verbatim>\<open>Workaround for
  ReactNative TextField working only on strings\<close>), so the field holds any value.
\<close>

record PlantForm =
  name :: jsstring
  description :: "jsstring option"
  image :: "jsstring option"
  wateringReminderFrequency :: jsval

type_synonym AddPlantForm = PlantForm

type_synonym EditPlantForm = PlantForm

text \<open>
  Modelled from the spec: \<^verbatim>\<open>enums/api-errors\<close> is not under \<^verbatim>\<open>src/\<close>. A thrown value is
  either the error kind \<^verbatim>\<open>ApiErrors.INVALID_FILE\<close>, the only one the handlers tell apart
  (by \<^verbatim>\<open>switch\<close>, that is by \<^verbatim>\<open>===\<close>), or any other value.
\<close>

datatype 'e thrown = INVALID_FILE | Other 'e

text \<open>\<open>T key\<close> is the localized text \<^verbatim>\<open>t(key)\<close> of \<^verbatim>\<open>config/i18n\<close>.\<close>

datatype localized = T string

record toast =
  text1 :: localized
  text2 :: "localized option"
  type' :: string

text \<open>
  The calls a screen makes to its collaborators, in the order it makes them: the plant
  service, Formik's \<^verbatim>\<open>resetForm\<close>, the navigation stack and the toast utility.
\<close>

datatype call =
    AddPlantCall jsobject
  | EditPlantCall jsobject
  | DeletePlantCall jsstring
  | ResetForm
  | Navigate string
  | ShowToast toast

text \<open>
  What a handler writes: the \<^verbatim>\<open>loading\<close> state of its component and the log of its calls.
\<close>

record screen =
  loading :: bool
  calls :: "call list"

definition setLoading :: "bool \<Rightarrow> 'a screen_scheme \<Rightarrow> 'a screen_scheme" where
  "setLoading b s = s\<lparr>loading := b\<rparr>"

definition perform :: "call \<Rightarrow> 'a screen_scheme \<Rightarrow> 'a screen_scheme" where
  "perform c s = s\<lparr>calls := calls s @ [c]\<rparr>"

definition successToast :: "string \<Rightarrow> toast" where
  "successToast key = \<lparr>text1 = T key, text2 = None, type' = ''success''\<rparr>"

definition invalidFileToast :: toast where
  "invalidFileToast = \<lparr>text1 = T ''errors.invalidFileType'', text2 = None, type' = ''error''\<rparr>"

definition generalErrorToast :: toast where
  "generalErrorToast =
     \<lparr>text1 = T ''errors.general'', text2 = Some (T ''errors.generalDescription''),
      type' = ''error''\<rparr>"

section \<open>The add screen (\<^verbatim>\<open>src/add.tsx\<close>)\<close>

text \<open>
  \<^verbatim>\<open>image ? base64EncodeImage(image) : null\<close>. The encoder (\<^verbatim>\<open>utils/images\<close>) is a
  parameter; \<open>image'\<close> is the component's state \<^verbatim>\<open>image\<close>, the newly picked picture.
\<close>

definition base64EncodedImage :: "('img \<Rightarrow> jsval) \<Rightarrow> 'img option \<Rightarrow> jsval" where
  "base64EncodedImage base64EncodeImage image' =
     (case image' of Some i \<Rightarrow> base64EncodeImage i | None \<Rightarrow> JNull)"

text \<open>
  The string-to-number workaround of both handlers:
  \<^verbatim>\<open>typeof v === "string" ? parseInt(v) : v\<close>.
\<close>

definition coerceFrequency :: "jsval \<Rightarrow> jsval" where
  "coerceFrequency v =
     (if typeof v = ''string'' then (case v of JStr s \<Rightarrow> JNum (parseInt s) | _ \<Rightarrow> v) else v)"

definition optString :: "jsstring option \<Rightarrow> jsval" where
  "optString x = (case x of None \<Rightarrow> JUndefined | Some s \<Rightarrow> JStr s)"

text \<open>The argument of \<^verbatim>\<open>addPlant\<close> (\<^verbatim>\<open>add.tsx\<close>, lines 60 to 67).\<close>

definition addPlantPayload :: "jsval \<Rightarrow> bool \<Rightarrow> AddPlantForm \<Rightarrow> jsobject" where
  "addPlantPayload encoded isRemindersChecked values =
     (let wateringReminderFrequency' = coerceFrequency (PlantForm.wateringReminderFrequency values)
      in spread
           [(''name'', JStr (trim (PlantForm.name values))),
            (''description'', optString (map_option trim (PlantForm.description values))),
            (''image'', encoded)]
           (andObject isRemindersChecked
              [(''wateringReminderFrequency'', wateringReminderFrequency')]))"

text \<open>
  \<^verbatim>\<open>onSubmit\<close>: \<open>addPlant\<close> is the outcome of the remote call for a payload, \<open>Inl\<close> the value
  it throws. The \<^verbatim>\<open>finally\<close> block runs after the \<^verbatim>\<open>try\<close> block and after the \<^verbatim>\<open>catch\<close>
  block, also when the latter returns.
\<close>

definition onSubmit ::
  "(jsobject \<Rightarrow> 'e thrown + unit) \<Rightarrow> ('img \<Rightarrow> jsval) \<Rightarrow> 'img option \<Rightarrow> bool \<Rightarrow>
   AddPlantForm \<Rightarrow> 'a screen_scheme \<Rightarrow> 'a screen_scheme" where
  "onSubmit addPlant base64EncodeImage image' isRemindersChecked values s0 =
     (let s1 = setLoading True s0;
          payload = addPlantPayload (base64EncodedImage base64EncodeImage image')
                      isRemindersChecked values;
          s2 = perform (AddPlantCall payload) s1;
          s3 = (case addPlant payload of
                  Inr _ \<Rightarrow>
                    perform (ShowToast (successToast ''pages.plants.add.success''))
                      (perform (Navigate ''home'') (perform ResetForm s2))
                | Inl error \<Rightarrow>
                    (case error of
                       INVALID_FILE \<Rightarrow> perform (ShowToast invalidFileToast) s2
                     | Other _ \<Rightarrow> perform (ShowToast generalErrorToast) s2))
      in setLoading False s3)"

section \<open>The edit screen (\<^verbatim>\<open>src/edit.tsx\<close>)\<close>

text \<open>
  The form is seeded from the cached record (lines 157 to 163);
  \<^verbatim>\<open>selectedPlant.wateringReminderFrequency || 1\<close> replaces a zero frequency by 1.
\<close>

definition initialValues :: "Plant \<Rightarrow> EditPlantForm" where
  "initialValues selectedPlant =
     \<lparr>PlantForm.name = Plant.name selectedPlant,
      description = Plant.description selectedPlant,
      image = imgSrc selectedPlant,
      wateringReminderFrequency =
        JNum (if toBoolean (Num (Plant.wateringReminderFrequency selectedPlant))
              then Num (Plant.wateringReminderFrequency selectedPlant) else Num 1)\<rparr>"

text \<open>The argument of \<^verbatim>\<open>editPlant\<close> (lines 88 to 96).\<close>

definition editPlantPayload :: "jsstring \<Rightarrow> jsval \<Rightarrow> bool \<Rightarrow> EditPlantForm \<Rightarrow> jsobject" where
  "editPlantPayload plantId encoded isReminderChecked values =
     (let wateringReminderFrequency' = coerceFrequency (PlantForm.wateringReminderFrequency values)
      in spread
           [(''id'', JStr plantId),
            (''name'', JStr (PlantForm.name values)),
            (''description'', optString (PlantForm.description values)),
            (''image'', encoded)]
           (andObject isReminderChecked
              [(''wateringReminderFrequency'', wateringReminderFrequency')]))"

definition handleEdit ::
  "(jsobject \<Rightarrow> 'e thrown + unit) \<Rightarrow> ('img \<Rightarrow> jsval) \<Rightarrow> jsstring \<Rightarrow> 'img option \<Rightarrow> bool \<Rightarrow>
   EditPlantForm \<Rightarrow> 'a screen_scheme \<Rightarrow> 'a screen_scheme" where
  "handleEdit editPlant base64EncodeImage plantId image' isReminderChecked values s0 =
     (let s1 = setLoading True s0;
          payload = editPlantPayload plantId (base64EncodedImage base64EncodeImage image')
                      isReminderChecked values;
          s2 = perform (EditPlantCall payload) s1;
          s3 = (case editPlant payload of
                  Inr _ \<Rightarrow>
                    perform (ShowToast (successToast ''pages.plants.edit.success''))
                      (perform (Navigate ''home'') s2)
                | Inl error \<Rightarrow>
                    (case error of
                       INVALID_FILE \<Rightarrow> perform (ShowToast invalidFileToast) s2
                     | Other _ \<Rightarrow> perform (ShowToast generalErrorToast) s2))
      in setLoading False s3)"

text \<open>\<^verbatim>\<open>handleDelete\<close> (lines 60 to 75): every thrown value gets the general toast.\<close>

definition handleDelete ::
  "(jsstring \<Rightarrow> 'e thrown + unit) \<Rightarrow> jsstring \<Rightarrow> 'a screen_scheme \<Rightarrow> 'a screen_scheme" where
  "handleDelete deletePlant plantId s0 =
     (let s1 = perform (DeletePlantCall plantId) s0
      in case deletePlant plantId of
           Inr _ \<Rightarrow>
             perform (ShowToast (successToast ''pages.plants.edit.plantDeletedSuccess''))
               (perform (Navigate ''home'') s1)
         | Inl error \<Rightarrow> perform (ShowToast generalErrorToast) s1)"

text \<open>
  \<^verbatim>\<open>checkIfButtonShouldBeDisabled\<close> (lines 121 to 133). \<^verbatim>\<open>===\<close> on two strings, or on two
  values of which each is a string or absent, is equality.
\<close>

definition checkIfButtonShouldBeDisabled ::
  "(jsstring \<Rightarrow> jsnum) \<Rightarrow> Plant option \<Rightarrow> 'img option \<Rightarrow> bool \<Rightarrow> EditPlantForm \<Rightarrow> bool" where
  "checkIfButtonShouldBeDisabled stringToNumber selectedPlant image' isReminderChecked values =
     (case selectedPlant of
        None \<Rightarrow> True
      | Some plant \<Rightarrow>
          Plant.name plant = PlantForm.name values \<and>
          Plant.description plant = PlantForm.description values \<and>
          image' = None \<and>
          toBoolean (Num (Plant.wateringReminderFrequency plant)) = isReminderChecked \<and>
          (\<not> isReminderChecked \<or>
           isLooselyEqual stringToNumber (Num (Plant.wateringReminderFrequency plant))
             (PlantForm.wateringReminderFrequency values)))"

subsection \<open>The events of the edit screen\<close>

text \<open>
  The component's state \<^verbatim>\<open>showModal\<close> beside what the handlers write. The screen is
  mounted with the modal hidden.
\<close>

record EditPlantScreen = screen +
  showModal :: bool

definition setShowModal :: "bool \<Rightarrow> EditPlantScreen \<Rightarrow> EditPlantScreen" where
  "setShowModal b s = s\<lparr>showModal := b\<rparr>"

definition mount :: EditPlantScreen where
  "mount = \<lparr>loading = False, calls = [], showModal = False\<rparr>"

text \<open>
  What can happen on the screen. A submission reads the component's picked image and the
  checkbox, which other controls set, so the event carries their current values with the
  form's; an event that reaches the plant service carries the service's outcome.

  Modelled from the spec: \<^verbatim>\<open>modals/DeletePlantConfirmation\<close> is not under \<^verbatim>\<open>src/\<close>. The
  screen hands it \<^verbatim>\<open>showModal\<close>, \<^verbatim>\<open>setShowModal\<close> and \<^verbatim>\<open>handleDelete\<close> (lines 245 to 249).
  By the spec it is the explicit confirmation step before a deletion: while it is shown
  the user either dismisses it, which hides it, or accepts, which runs \<^verbatim>\<open>handleDelete\<close>;
  while it is hidden it offers neither.
\<close>

datatype ('e, 'img) event =
    PressDeleteHelper
  | ModalCancel
  | ModalConfirm "'e thrown + unit"
  | Submit "'img option" bool EditPlantForm "'e thrown + unit"

text \<open>
  The helper button calls \<^verbatim>\<open>setShowModal(true)\<close> (line 148). The form, and with it the
  submit button, is rendered only when the record is loaded and nothing is loading
  (line 155).
\<close>

fun step ::
  "('img \<Rightarrow> jsval) \<Rightarrow> jsstring \<Rightarrow> Plant option \<Rightarrow> EditPlantScreen \<Rightarrow> ('e, 'img) event \<Rightarrow>
   EditPlantScreen" where
  "step base64EncodeImage plantId selectedPlant s PressDeleteHelper = setShowModal True s"
| "step base64EncodeImage plantId selectedPlant s ModalCancel =
     (if showModal s then setShowModal False s else s)"
| "step base64EncodeImage plantId selectedPlant s (ModalConfirm outcome) =
     (if showModal s then handleDelete (\<lambda>_. outcome) plantId s else s)"
| "step base64EncodeImage plantId selectedPlant s (Submit image' isReminderChecked values outcome) =
     (if selectedPlant \<noteq> None \<and> \<not> loading s
      then handleEdit (\<lambda>_. outcome) base64EncodeImage plantId image' isReminderChecked values s
      else s)"

definition run ::
  "('img \<Rightarrow> jsval) \<Rightarrow> jsstring \<Rightarrow> Plant option \<Rightarrow> ('e, 'img) event list \<Rightarrow> EditPlantScreen" where
  "run base64EncodeImage plantId selectedPlant es =
     foldl (step base64EncodeImage plantId selectedPlant) mount es"

section \<open>The spec's statements\<close>

text \<open>
  The dirty-check as the spec words it (4.5): disabled when the name is unchanged, the
  description is unchanged, no new image was picked, the checkbox matches whether the
  stored frequency is non-zero and, if reminders are checked, the stored frequency
  loosely equals the form's.
\<close>

definition submitDisabled_spec ::
  "(jsstring \<Rightarrow> jsnum) \<Rightarrow> Plant \<Rightarrow> 'img option \<Rightarrow> bool \<Rightarrow> EditPlantForm \<Rightarrow> bool" where
  "submitDisabled_spec stringToNumber plant image' isReminderChecked values \<longleftrightarrow>
     Plant.name plant = PlantForm.name values \<and>
     Plant.description plant = PlantForm.description values \<and>
     image' = None \<and>
     (isReminderChecked \<longleftrightarrow> Plant.wateringReminderFrequency plant \<noteq> 0) \<and>
     (isReminderChecked \<longrightarrow>
        isLooselyEqual stringToNumber (Num (Plant.wateringReminderFrequency plant))
          (PlantForm.wateringReminderFrequency values))"

text \<open>The decimal numeral of a natural number, as a text field holds it.\<close>

definition digitChar :: "nat \<Rightarrow> code_unit" where
  "digitChar d = of_nat (0x30 + d)"

fun decimal :: "nat \<Rightarrow> jsstring" where
  "decimal n = (if n < 10 then [digitChar n] else decimal (n div 10) @ [digitChar (n mod 10)])"

text \<open>
  The calls made between two states of a screen, and the payloads among them that went to
  \<^verbatim>\<open>addPlant\<close> or \<^verbatim>\<open>editPlant\<close>.
\<close>

definition newCalls :: "'a screen_scheme \<Rightarrow> 'a screen_scheme \<Rightarrow> call list" where
  "newCalls s s' = drop (length (calls s)) (calls s')"

fun servicePayloads :: "call list \<Rightarrow> jsobject list" where
  "servicePayloads [] = []"
| "servicePayloads (AddPlantCall p # cs) = p # servicePayloads cs"
| "servicePayloads (EditPlantCall p # cs) = p # servicePayloads cs"
| "servicePayloads (c # cs) = servicePayloads cs"

fun toasts :: "call list \<Rightarrow> toast list" where
  "toasts [] = []"
| "toasts (ShowToast x # cs) = x # toasts cs"
| "toasts (c # cs) = toasts cs"

text \<open>The add screen is mounted with nothing loading.\<close>

definition initial :: screen where
  "initial = \<lparr>loading = False, calls = []\<rparr>"

text \<open>
  The record of the spec's examples (section 8): a plant named Fern, described as Green,
  with no reminder, here with a stored picture.
\<close>

definition fern :: Plant where
  "fern =
     \<lparr>id' = str ''7'', name = str ''Fern'', description = Some (str ''Green''),
      imgSrc = Some (str ''https://plants.example/fern.jpg''), wateringReminderFrequency = 0,
      createdAt = str ''2022-05-01T10:00:00.000Z''\<rparr>"

text \<open>
  For the examples: a plant service that accepts every payload, one that throws a given
  value, and an encoder of pictures.
\<close>

definition accepts :: "jsobject \<Rightarrow> unit thrown + unit" where
  "accepts payload = Inr ()"

definition rejects :: "unit thrown \<Rightarrow> jsobject \<Rightarrow> unit thrown + unit" where
  "rejects error payload = Inl error"

definition encodePicture :: "jsstring \<Rightarrow> jsval" where
  "encodePicture uri = JStr (str ''data:image/jpeg;base64,'' @ uri)"

text \<open>
  A string is non-numeric when, after leading white space and an optional sign, it does
  not go on with a decimal digit.
\<close>

definition isDecimalDigit :: "code_unit \<Rightarrow> bool" where
  "isDecimalDigit c \<longleftrightarrow> 0x30 \<le> c \<and> c \<le> 0x39"

definition nonNumeric :: "jsstring \<Rightarrow> bool" where
  "nonNumeric x =
     (case dropWhile isWhiteSpace x of
        [] \<Rightarrow> True
      | c # cs \<Rightarrow>
          (if c = 0x2B \<or> c = 0x2D
           then (case cs of [] \<Rightarrow> True | d # _ \<Rightarrow> \<not> isDecimalDigit d)
           else \<not> isDecimalDigit c))"

section \<open>Properties of the embedding\<close>

declare decimal.simps [simp del]

declare bitLength.simps [simp del]

subsection \<open>What the handlers call and write\<close>

lemma onSubmit_newCalls:
  "newCalls s (onSubmit addPlant enc image' chk values s) =
     AddPlantCall (addPlantPayload (base64EncodedImage enc image') chk values) #
       (case addPlant (addPlantPayload (base64EncodedImage enc image') chk values) of
          Inr _ \<Rightarrow> [ResetForm, Navigate ''home'',
                    ShowToast (successToast ''pages.plants.add.success'')]
        | Inl INVALID_FILE \<Rightarrow> [ShowToast invalidFileToast]
        | Inl (Other x) \<Rightarrow> [ShowToast generalErrorToast])"
  by (simp add: newCalls_def onSubmit_def Let_def setLoading_def perform_def
      split: sum.split thrown.split)

lemma handleEdit_newCalls:
  "newCalls s (handleEdit editPlant enc plantId image' chk values s) =
     EditPlantCall (editPlantPayload plantId (base64EncodedImage enc image') chk values) #
       (case editPlant (editPlantPayload plantId (base64EncodedImage enc image') chk values) of
          Inr _ \<Rightarrow> [Navigate ''home'', ShowToast (successToast ''pages.plants.edit.success'')]
        | Inl INVALID_FILE \<Rightarrow> [ShowToast invalidFileToast]
        | Inl (Other x) \<Rightarrow> [ShowToast generalErrorToast])"
  by (simp add: newCalls_def handleEdit_def Let_def setLoading_def perform_def
      split: sum.split thrown.split)

lemma onSubmit_loading: "loading (onSubmit addPlant enc image' chk values s) = False"
  by (simp add: onSubmit_def Let_def setLoading_def)

lemma handleEdit_loading: "loading (handleEdit editPlant enc plantId image' chk values s) = False"
  by (simp add: handleEdit_def Let_def setLoading_def)

lemma addPlantPayload_key:
  "hasOwnProperty (addPlantPayload encoded chk values) ''wateringReminderFrequency'' \<longleftrightarrow> chk"
  by (simp add: addPlantPayload_def hasOwnProperty_def spread_def andObject_def Let_def)

lemma editPlantPayload_key:
  "hasOwnProperty (editPlantPayload plantId encoded chk values) ''wateringReminderFrequency'' \<longleftrightarrow> chk"
  by (simp add: editPlantPayload_def hasOwnProperty_def spread_def andObject_def Let_def)

lemma addPlantPayload_name:
  "getProp (addPlantPayload encoded chk values) ''name'' = JStr (trim (PlantForm.name values))"
  by (simp add: addPlantPayload_def getProp_def spread_def andObject_def Let_def)

lemma addPlantPayload_description:
  "getProp (addPlantPayload encoded chk values) ''description'' =
     (case PlantForm.description values of None \<Rightarrow> JUndefined | Some d \<Rightarrow> JStr (trim d))"
  by (simp add: addPlantPayload_def getProp_def spread_def andObject_def Let_def optString_def
      split: option.split)

lemma editPlantPayload_name:
  "getProp (editPlantPayload plantId encoded chk values) ''name'' = JStr (PlantForm.name values)"
  by (simp add: editPlantPayload_def getProp_def spread_def andObject_def Let_def)

lemma editPlantPayload_description:
  "getProp (editPlantPayload plantId encoded chk values) ''description'' =
     (case PlantForm.description values of None \<Rightarrow> JUndefined | Some d \<Rightarrow> JStr d)"
  by (simp add: editPlantPayload_def getProp_def spread_def andObject_def Let_def optString_def
      split: option.split)

lemma editPlantPayload_image:
  "getProp (editPlantPayload plantId encoded chk values) ''image'' = encoded"
  by (simp add: editPlantPayload_def getProp_def spread_def andObject_def Let_def)

lemma coerceFrequency_simps:
  "coerceFrequency (JStr x) = JNum (parseInt x)"
  "coerceFrequency (JNum n) = JNum n"
  "coerceFrequency JUndefined = JUndefined"
  "coerceFrequency JNull = JNull"
  by (simp_all add: coerceFrequency_def)

lemma addPlantPayload_frequency:
  "getProp (addPlantPayload encoded True values) ''wateringReminderFrequency'' =
     coerceFrequency (PlantForm.wateringReminderFrequency values)"
  by (simp add: addPlantPayload_def getProp_def spread_def andObject_def Let_def)

lemma editPlantPayload_frequency:
  "getProp (editPlantPayload plantId encoded True values) ''wateringReminderFrequency'' =
     coerceFrequency (PlantForm.wateringReminderFrequency values)"
  by (simp add: editPlantPayload_def getProp_def spread_def andObject_def Let_def)

lemma onSubmit_payloads:
  "servicePayloads (newCalls s (onSubmit addPlant enc image' chk values s)) =
     [addPlantPayload (base64EncodedImage enc image') chk values]"
  by (simp add: onSubmit_newCalls split: sum.split thrown.split)

lemma handleEdit_payloads:
  "servicePayloads (newCalls s (handleEdit editPlant enc plantId image' chk values s)) =
     [editPlantPayload plantId (base64EncodedImage enc image') chk values]"
  by (simp add: handleEdit_newCalls split: sum.split thrown.split)

subsection \<open>Trimming\<close>

lemma trimEnd_decomp:
  "\<exists>post. s = trimEnd s @ post \<and> list_all isWhiteSpace post"
proof -
  have "rev s = takeWhile isWhiteSpace (rev s) @ dropWhile isWhiteSpace (rev s)"
    by simp
  then have "s = rev (dropWhile isWhiteSpace (rev s)) @ rev (takeWhile isWhiteSpace (rev s))"
    by (metis rev_append rev_rev_ident)
  moreover have "list_all isWhiteSpace (rev (takeWhile isWhiteSpace (rev s)))"
    by (simp add: list_all_iff) (meson set_takeWhileD)
  ultimately show ?thesis
    unfolding trimEnd_def by blast
qed

lemma trim_decomp:
  "\<exists>pre post. s = pre @ trim s @ post \<and> list_all isWhiteSpace pre \<and> list_all isWhiteSpace post"
proof -
  obtain post where post: "trimStart s = trimEnd (trimStart s) @ post" "list_all isWhiteSpace post"
    using trimEnd_decomp by blast
  have "s = takeWhile isWhiteSpace s @ trimStart s"
    by (simp add: trimStart_def)
  then have "s = takeWhile isWhiteSpace s @ trim s @ post"
    using post(1) by (simp add: trim_def)
  moreover have "list_all isWhiteSpace (takeWhile isWhiteSpace s)"
    by (simp add: list_all_iff) (meson set_takeWhileD)
  ultimately show ?thesis
    using post(2) by blast
qed

lemma trimStart_hd: "trimStart s \<noteq> [] \<Longrightarrow> \<not> isWhiteSpace (hd (trimStart s))"
  unfolding trimStart_def by (rule hd_dropWhile)

lemma trimEnd_last: "trimEnd s \<noteq> [] \<Longrightarrow> \<not> isWhiteSpace (last (trimEnd s))"
  unfolding trimEnd_def by (simp add: last_rev hd_dropWhile)

lemma trimEnd_hd: "trimEnd s \<noteq> [] \<Longrightarrow> hd (trimEnd s) = hd s"
proof -
  assume ne: "trimEnd s \<noteq> []"
  obtain post where "s = trimEnd s @ post"
    using trimEnd_decomp by blast
  then have "hd s = hd (trimEnd s @ post)" by simp
  with ne show ?thesis by simp
qed

lemma trim_ends:
  assumes "trim s \<noteq> []"
  shows "\<not> isWhiteSpace (hd (trim s)) \<and> \<not> isWhiteSpace (last (trim s))"
proof -
  from assms have ne: "trimStart s \<noteq> []"
    by (auto simp: trim_def trimEnd_def)
  have "hd (trim s) = hd (trimStart s)"
    using assms by (simp add: trim_def trimEnd_hd)
  then show ?thesis
    using assms ne trimStart_hd trimEnd_last by (simp add: trim_def)
qed

subsection \<open>Parsing a decimal numeral\<close>

lemma bitLength_le: "n < 2 ^ k \<Longrightarrow> bitLength n \<le> k"
proof (induction k arbitrary: n)
  case 0
  then show ?case by (simp add: bitLength.simps [of 0])
next
  case (Suc k)
  from Suc.prems have "n div 2 < 2 ^ k" by simp
  then have "bitLength (n div 2) \<le> k" by (rule Suc.IH)
  then show ?case by (simp add: bitLength.simps [of n])
qed

lemma roundToDouble_exact: "n < 2 ^ 53 \<Longrightarrow> roundToDouble n = n"
  using bitLength_le [of n 53] by (simp add: roundToDouble_def)

lemma numberValue_exact:
  assumes "n < 2 ^ 53"
  shows "numberValue (int n) = Num (int n)"
proof -
  have "(2 :: nat) ^ 53 < 2 ^ 1024" by simp
  with assms have "n < 2 ^ 1024" by (rule less_trans)
  with assms show ?thesis
    by (simp add: numberValue_def roundToDouble_exact)
qed

lemma digitChar_facts:
  assumes "d < 10"
  shows "digitValue (digitChar d) = Some d"
    and "\<not> isWhiteSpace (digitChar d)"
    and "digitChar d \<noteq> 0x2B" and "digitChar d \<noteq> 0x2D"
    and "digitChar d \<noteq> 0x78" and "digitChar d \<noteq> 0x58"
proof -
  from assms have "d \<in> {0, 1, 2, 3, 4, 5, 6, 7, 8, 9}" by auto
  then show "digitValue (digitChar d) = Some d"
    and "\<not> isWhiteSpace (digitChar d)"
    and "digitChar d \<noteq> 0x2B" and "digitChar d \<noteq> 0x2D"
    and "digitChar d \<noteq> 0x78" and "digitChar d \<noteq> 0x58"
    by (auto simp: digitChar_def digitValue_def isWhiteSpace_def)
qed

lemma decimal_digits: "c \<in> set (decimal n) \<Longrightarrow> \<exists>d<10. c = digitChar d"
proof (induction n rule: decimal.induct)
  case (1 n)
  show ?case
  proof (cases "n < 10")
    case True
    with "1.prems" show ?thesis by (auto simp: decimal.simps [of n])
  next
    case False
    with "1.prems" have "c \<in> set (decimal (n div 10)) \<or> c = digitChar (n mod 10)"
      by (auto simp: decimal.simps [of n])
    then show ?thesis
    proof
      assume "c \<in> set (decimal (n div 10))"
      with "1.IH" False show ?thesis by simp
    next
      assume "c = digitChar (n mod 10)"
      moreover have "n mod 10 < 10" by simp
      ultimately show ?thesis by blast
    qed
  qed
qed

lemma decimal_nonempty: "decimal n \<noteq> []"
  by (simp add: decimal.simps [of n])

lemma mathInt_snoc:
  "mathInt R (Z @ [c]) = mathInt R Z * R + (case digitValue c of Some d \<Rightarrow> d | None \<Rightarrow> 0)"
  by (simp add: mathInt_def)

lemma mathInt_decimal: "mathInt 10 (decimal n) = n"
proof (induction n rule: decimal.induct)
  case (1 n)
  show ?case
  proof (cases "n < 10")
    case True
    then show ?thesis
      by (simp add: decimal.simps [of n] mathInt_def digitChar_facts(1))
  next
    case False
    have "mathInt 10 (decimal n) = mathInt 10 (decimal (n div 10)) * 10 + n mod 10"
      using False by (simp add: decimal.simps [of n] mathInt_snoc digitChar_facts(1))
    also have "\<dots> = (n div 10) * 10 + n mod 10"
      using "1.IH" False by simp
    finally show ?thesis by simp
  qed
qed

lemma decimal_radix: "takeWhile (isRadixDigit 10) (decimal n) = decimal n"
proof -
  have "\<forall>c\<in>set (decimal n). isRadixDigit 10 c"
    using decimal_digits by (fastforce simp: isRadixDigit_def digitChar_facts(1))
  then show ?thesis by (simp add: takeWhile_eq_all_conv)
qed

lemma take2_second: "take 2 xs = [a, b] \<Longrightarrow> b \<in> set xs"
  by (metis in_set_takeD list.set_intros(1) list.set_intros(2))

lemma decimal_not_hex:
  "take 2 (decimal n) \<noteq> [0x30, 0x78]" "take 2 (decimal n) \<noteq> [0x30, 0x58]"
  using take2_second decimal_digits digitChar_facts(5,6) by metis+

lemma parseInt_decimal: "parseInt (decimal n) = numberValue (int n)"
proof -
  obtain c cs where cs: "decimal n = c # cs"
    using decimal_nonempty by (cases "decimal n") auto
  then have "c \<in> set (decimal n)" by simp
  then obtain d where d: "d < 10" "c = digitChar d"
    using decimal_digits by blast
  have start: "trimStart (decimal n) = decimal n"
    using cs d digitChar_facts(2) by (simp add: trimStart_def)
  have sign: "hd (decimal n) \<noteq> 0x2B" "hd (decimal n) \<noteq> 0x2D"
    using cs d digitChar_facts(3,4) by simp_all
  show ?thesis
    using decimal_nonempty sign decimal_not_hex [of n]
    by (simp add: parseInt_def start Let_def decimal_radix mathInt_decimal)
qed

subsection \<open>Non-numeric strings\<close>

lemma not_decimal_not_radix: "\<not> isDecimalDigit c \<Longrightarrow> \<not> isRadixDigit 10 c"
  by (auto simp: isDecimalDigit_def isRadixDigit_def digitValue_def)

lemma not_decimal_not_zero: "\<not> isDecimalDigit c \<Longrightarrow> c \<noteq> 0x30"
  by (auto simp: isDecimalDigit_def)

lemma nonNumeric_parseInt:
  assumes "nonNumeric x"
  shows "parseInt x = NaN"
proof (cases "dropWhile isWhiteSpace x")
  case Nil
  show ?thesis
    unfolding parseInt_def trimStart_def Nil by simp
next
  case outer: (Cons c cs)
  show ?thesis
  proof (cases "c = 0x2B \<or> c = 0x2D")
    case signed: True
    show ?thesis
    proof (cases cs)
      case Nil
      with signed show ?thesis
        unfolding parseInt_def trimStart_def outer by auto
    next
      case (Cons d ds)
      with assms outer signed have "\<not> isDecimalDigit d"
        by (auto simp: nonNumeric_def)
      then have "\<not> isRadixDigit 10 d" "d \<noteq> 0x30"
        by (simp_all add: not_decimal_not_radix not_decimal_not_zero)
      with signed Cons show ?thesis
        unfolding parseInt_def trimStart_def outer by auto
    qed
  next
    case unsigned: False
    with assms outer have "\<not> isDecimalDigit c"
      by (auto simp: nonNumeric_def)
    then have "\<not> isRadixDigit 10 c" "c \<noteq> 0x30"
      by (simp_all add: not_decimal_not_radix not_decimal_not_zero)
    with unsigned show ?thesis
      unfolding parseInt_def trimStart_def outer by auto
  qed
qed

subsection \<open>The delete flow\<close>

lemma handleEdit_showModal:
  "showModal (handleEdit editPlant enc plantId image' chk values s) = showModal s"
  by (simp add: handleEdit_def Let_def setLoading_def perform_def split: sum.split thrown.split)

lemma handleDelete_showModal: "showModal (handleDelete deletePlant plantId s) = showModal s"
  by (simp add: handleDelete_def Let_def perform_def split: sum.split)

lemma handleEdit_no_delete:
  "DeletePlantCall pid \<in> set (calls (handleEdit editPlant enc plantId image' chk values s)) \<longleftrightarrow>
   DeletePlantCall pid \<in> set (calls s)"
  by (simp add: handleEdit_def Let_def setLoading_def perform_def split: sum.split thrown.split)

lemma step_delete:
  "DeletePlantCall pid \<in> set (calls (step enc plantId selectedPlant s e)) \<Longrightarrow>
   DeletePlantCall pid \<in> set (calls s) \<or> (\<exists>outcome. e = ModalConfirm outcome \<and> showModal s)"
  by (cases e) (auto simp: setShowModal_def handleEdit_no_delete split: if_splits)

lemma step_showModal:
  "showModal (step enc plantId selectedPlant s e) \<Longrightarrow> showModal s \<or> e = PressDeleteHelper"
  by (cases e)
    (auto simp: setShowModal_def handleEdit_showModal handleDelete_showModal split: if_splits)

lemma run_snoc:
  "run enc plantId selectedPlant (es @ [e]) =
   step enc plantId selectedPlant (run enc plantId selectedPlant es) e"
  by (simp add: run_def)

lemma run_showModal:
  "showModal (run enc plantId selectedPlant es) \<Longrightarrow> PressDeleteHelper \<in> set es"
proof (induction es rule: rev_induct)
  case Nil
  then show ?case by (simp add: run_def mount_def)
next
  case (snoc e es)
  then show ?case
    using step_showModal [of enc plantId selectedPlant "run enc plantId selectedPlant es" e]
    by (auto simp: run_snoc)
qed

lemma run_delete:
  "DeletePlantCall pid \<in> set (calls (run enc plantId selectedPlant es)) \<Longrightarrow>
   \<exists>es1 outcome es2. es = es1 @ ModalConfirm outcome # es2 \<and>
     showModal (run enc plantId selectedPlant es1) \<and> PressDeleteHelper \<in> set es1"
proof (induction es rule: rev_induct)
  case Nil
  then show ?case by (simp add: run_def mount_def)
next
  case (snoc e es)
  from snoc.prems
  have "DeletePlantCall pid \<in> set (calls (run enc plantId selectedPlant es)) \<or>
        (\<exists>outcome. e = ModalConfirm outcome \<and> showModal (run enc plantId selectedPlant es))"
    using step_delete by (fastforce simp: run_snoc)
  then show ?case
  proof
    assume "DeletePlantCall pid \<in> set (calls (run enc plantId selectedPlant es))"
    then obtain es1 outcome es2 where
      "es = es1 @ ModalConfirm outcome # es2"
      "showModal (run enc plantId selectedPlant es1)" "PressDeleteHelper \<in> set es1"
      using snoc.IH by blast
    then have "es @ [e] = es1 @ ModalConfirm outcome # (es2 @ [e])" by simp
    then show ?thesis
      using \<open>showModal (run enc plantId selectedPlant es1)\<close> \<open>PressDeleteHelper \<in> set es1\<close>
      by blast
  next
    assume "\<exists>outcome. e = ModalConfirm outcome \<and> showModal (run enc plantId selectedPlant es)"
    then obtain outcome where
      e: "e = ModalConfirm outcome" and shown: "showModal (run enc plantId selectedPlant es)"
      by blast
    have "es @ [e] = es @ ModalConfirm outcome # []" using e by simp
    then show ?thesis
      using shown run_showModal [OF shown] by blast
  qed
qed

section \<open>The claims\<close>

text \<open>
  C1: on the add screen and on the edit screen, every submission passes one payload to
  the plant service, and that payload has the key \<^verbatim>\<open>wateringReminderFrequency\<close> exactly
  when the reminders checkbox is checked: unchecked, the key is absent, not set to zero or
  null.
\<close>

theorem reminder_key_iff_checked:
  "(\<exists>p. servicePayloads (newCalls s (onSubmit addPlant enc image' chk values s)) = [p] \<and>
        (hasOwnProperty p ''wateringReminderFrequency'' \<longleftrightarrow> chk)) \<and>
   (\<exists>p. servicePayloads (newCalls s (handleEdit editPlant enc plantId image' chk values s)) = [p] \<and>
        (hasOwnProperty p ''wateringReminderFrequency'' \<longleftrightarrow> chk))"
  by (simp add: onSubmit_payloads handleEdit_payloads addPlantPayload_key editPlantPayload_key)

theorem reminder_key_iff_checked_witness:
  "(\<exists>p. servicePayloads (newCalls initial
           (onSubmit accepts encodePicture None False
              \<lparr>name = str ''Fern'', description = Some [], image = None,
               wateringReminderFrequency = JNum (Num 1)\<rparr> initial)) = [p] \<and>
        \<not> hasOwnProperty p ''wateringReminderFrequency'') \<and>
   (\<exists>p. servicePayloads (newCalls initial
           (handleEdit accepts encodePicture (str ''7'') None False
              \<lparr>name = str ''Fern'', description = Some [], image = None,
               wateringReminderFrequency = JNum (Num 1)\<rparr> initial)) = [p] \<and>
        \<not> hasOwnProperty p ''wateringReminderFrequency'')"
  using reminder_key_iff_checked
    [of initial accepts encodePicture None False
       "\<lparr>name = str ''Fern'', description = Some [], image = None,
         wateringReminderFrequency = JNum (Num 1)\<rparr>"
       accepts "str ''7''"]
  by simp

text \<open>
  C2: for a loaded record, the dirty-check of the edit screen is the spec's rule: the
  submit control is disabled exactly when the name is unchanged, the description is
  unchanged, no new image was picked, the checkbox equals whether the stored frequency is
  non-zero and, if the checkbox is checked, the stored frequency loosely equals the
  form's. It depends on nothing but the form values, the record, the picked image and
  the checkbox.
\<close>

theorem dirty_check_refines_spec:
  "checkIfButtonShouldBeDisabled stringToNumber (Some plant) image' isReminderChecked values =
   submitDisabled_spec stringToNumber plant image' isReminderChecked values"
  by (auto simp: checkIfButtonShouldBeDisabled_def submitDisabled_spec_def)

text \<open>
  The spec's two examples: the record of Fern with the form as seeded, reminders
  unchecked and no new image, disables the control; changing the description enables it.
  With a stored frequency of 3 and reminders checked, the seeded form disables it too.
  The form's frequency is a Number there, so no string is converted.
\<close>

theorem dirty_check_refines_spec_witness:
  "submitDisabled_spec (\<lambda>_. NaN) fern (None :: unit option) False (initialValues fern) \<and>
   \<not> submitDisabled_spec (\<lambda>_. NaN) fern (None :: unit option) False
       ((initialValues fern)\<lparr>description := Some (str ''Green and tall'')\<rparr>) \<and>
   submitDisabled_spec (\<lambda>_. NaN) (fern\<lparr>Plant.wateringReminderFrequency := 3\<rparr>)
     (None :: unit option) True (initialValues (fern\<lparr>Plant.wateringReminderFrequency := 3\<rparr>))"
  using dirty_check_refines_spec [of "\<lambda>_. NaN" fern "None :: unit option" False "initialValues fern"]
    dirty_check_refines_spec [of "\<lambda>_. NaN" fern "None :: unit option" False
      "(initialValues fern)\<lparr>description := Some (str ''Green and tall'')\<rparr>"]
    dirty_check_refines_spec [of "\<lambda>_. NaN" "fern\<lparr>Plant.wateringReminderFrequency := 3\<rparr>"
      "None :: unit option" True "initialValues (fern\<lparr>Plant.wateringReminderFrequency := 3\<rparr>)"]
  by (simp add: checkIfButtonShouldBeDisabled_def fern_def initialValues_def str_def
      isLooselyEqual_def)

text \<open>
  C3, as the spec states it, fails: for the record of Fern, whose picture is stored, an
  edit submission of the seeded form with no new image sends \<^verbatim>\<open>null\<close> as the image, not
  the stored URI.
\<close>

theorem edit_image_fallback_counterexample:
  "getProp (hd (servicePayloads (newCalls mount
      (handleEdit accepts encodePicture (id' fern) None False
         (initialValues fern) mount)))) ''image'' = JNull \<and>
   imgSrc fern = Some (str ''https://plants.example/fern.jpg'') \<and>
   getProp (hd (servicePayloads (newCalls mount
      (handleEdit accepts encodePicture (id' fern) None False
         (initialValues fern) mount)))) ''image'' \<noteq> optString (imgSrc fern)"
  by (simp add: handleEdit_payloads editPlantPayload_image base64EncodedImage_def fern_def
      optString_def)

text \<open>
  C3, amended: every edit submission in which no new image was picked passes one payload
  to \<^verbatim>\<open>editPlant\<close>, and its image field is \<^verbatim>\<open>null\<close>; the stored image URI only seeds the
  form's image value.
\<close>

theorem edit_image_null_when_none_picked:
  "(\<exists>p. servicePayloads (newCalls s (handleEdit editPlant enc plantId None chk values s)) = [p] \<and>
        getProp p ''image'' = JNull) \<and>
   PlantForm.image (initialValues plant) = imgSrc plant"
  by (simp add: handleEdit_payloads editPlantPayload_image base64EncodedImage_def
      initialValues_def)

theorem edit_image_null_when_none_picked_witness:
  "(\<exists>p. servicePayloads (newCalls mount
           (handleEdit (rejects INVALID_FILE) encodePicture (id' fern)
              None True (initialValues fern) mount)) = [p] \<and>
        getProp p ''image'' = JNull) \<and>
   PlantForm.image (initialValues fern) = Some (str ''https://plants.example/fern.jpg'')"
  using edit_image_null_when_none_picked
    [of mount "rejects INVALID_FILE" encodePicture "id' fern" True
       "initialValues fern" fern]
  by (simp add: fern_def)

text \<open>
  C4: every add submission passes one payload to \<^verbatim>\<open>addPlant\<close>; its name is the form's name
  trimmed and its description the form's description trimmed (absent when the form has
  none). The trimmed string is what is left of the string between a prefix and a suffix
  of white space, and neither starts nor ends with white space; the name
  \<^verbatim>\<open>"  Fern  "\<close> is sent as \<^verbatim>\<open>"Fern"\<close>.
\<close>

theorem add_payload_trimmed:
  "(\<exists>p. servicePayloads (newCalls s (onSubmit addPlant enc image' chk values s)) = [p] \<and>
        getProp p ''name'' = JStr (trim (PlantForm.name values)) \<and>
        getProp p ''description'' =
          (case PlantForm.description values of None \<Rightarrow> JUndefined | Some d \<Rightarrow> JStr (trim d))) \<and>
   (\<exists>pre post. x = pre @ trim x @ post \<and> list_all isWhiteSpace pre \<and> list_all isWhiteSpace post) \<and>
   (trim x = [] \<or> \<not> isWhiteSpace (hd (trim x)) \<and> \<not> isWhiteSpace (last (trim x))) \<and>
   trim (str ''  Fern  '') = str ''Fern''"
proof -
  have "trim (str ''  Fern  '') = str ''Fern''"
    by (simp add: trim_def trimStart_def trimEnd_def str_def isWhiteSpace_def)
  moreover have "trim x = [] \<or> \<not> isWhiteSpace (hd (trim x)) \<and> \<not> isWhiteSpace (last (trim x))"
    using trim_ends by blast
  ultimately show ?thesis
    using trim_decomp [of x]
    by (simp add: onSubmit_payloads addPlantPayload_name addPlantPayload_description)
qed

theorem add_payload_trimmed_witness:
  "(\<exists>p. servicePayloads (newCalls initial
           (onSubmit accepts encodePicture None False
              \<lparr>name = str ''  Fern  '', description = Some (str ''Green ''), image = None,
               wateringReminderFrequency = JNum (Num 1)\<rparr> initial)) = [p] \<and>
        getProp p ''name'' = JStr (str ''Fern'') \<and>
        getProp p ''description'' = JStr (str ''Green''))"
  using add_payload_trimmed
    [of initial accepts encodePicture None False
       "\<lparr>name = str ''  Fern  '', description = Some (str ''Green ''), image = None,
         wateringReminderFrequency = JNum (Num 1)\<rparr>" "[]"]
  by (simp add: trim_def trimStart_def trimEnd_def str_def isWhiteSpace_def)

text \<open>
  C5: every edit submission passes one payload to \<^verbatim>\<open>editPlant\<close>; its name and its
  description are the form's values as they are, untrimmed. There is a form value with
  surrounding white space, the name \<^verbatim>\<open>"  Fern  "\<close>, that the edit payload keeps and that
  the add payload would have trimmed.
\<close>

theorem edit_payload_untrimmed:
  "(\<exists>p. servicePayloads (newCalls s (handleEdit editPlant enc plantId image' chk values s)) = [p] \<and>
        getProp p ''name'' = JStr (PlantForm.name values) \<and>
        getProp p ''description'' =
          (case PlantForm.description values of None \<Rightarrow> JUndefined | Some d \<Rightarrow> JStr d)) \<and>
   (\<exists>v. getProp (editPlantPayload plantId encoded chk v) ''name'' = JStr (str ''  Fern  '') \<and>
        getProp (addPlantPayload encoded chk v) ''name'' = JStr (str ''Fern''))"
proof -
  let ?v = "\<lparr>name = str ''  Fern  '', description = None, image = None,
             wateringReminderFrequency = JNum (Num 1)\<rparr>"
  have "trim (str ''  Fern  '') = str ''Fern''"
    by (simp add: trim_def trimStart_def trimEnd_def str_def isWhiteSpace_def)
  then have "getProp (editPlantPayload plantId encoded chk ?v) ''name'' = JStr (str ''  Fern  '') \<and>
        getProp (addPlantPayload encoded chk ?v) ''name'' = JStr (str ''Fern'')"
    by (simp add: editPlantPayload_name addPlantPayload_name)
  then have "\<exists>v. getProp (editPlantPayload plantId encoded chk v) ''name'' = JStr (str ''  Fern  '') \<and>
        getProp (addPlantPayload encoded chk v) ''name'' = JStr (str ''Fern'')"
    by blast
  then show ?thesis
    by (simp add: handleEdit_payloads editPlantPayload_name editPlantPayload_description)
qed

theorem edit_payload_untrimmed_witness:
  "(\<exists>p. servicePayloads (newCalls mount
           (handleEdit accepts encodePicture (id' fern) None False
              \<lparr>name = str ''  Fern  '', description = Some (str ''Green ''), image = None,
               wateringReminderFrequency = JNum (Num 1)\<rparr> mount)) = [p] \<and>
        getProp p ''name'' = JStr (str ''  Fern  '') \<and>
        getProp p ''description'' = JStr (str ''Green '')) \<and>
   str ''  Fern  '' \<noteq> trim (str ''  Fern  '')"
  using edit_payload_untrimmed
    [of mount accepts encodePicture "id' fern" None False
       "\<lparr>name = str ''  Fern  '', description = Some (str ''Green ''), image = None,
         wateringReminderFrequency = JNum (Num 1)\<rparr>" JNull]
  by (simp add: trim_def trimStart_def trimEnd_def str_def isWhiteSpace_def)

text \<open>
  C6: with the reminders checkbox checked, a submission on either screen whose frequency
  is a string \<open>x\<close> passes a payload whose frequency is the Number \<open>parseInt x\<close>, and one
  whose frequency is already a Number passes that Number unchanged. For the decimal
  numeral of a natural number \<open>m\<close>, \<open>parseInt\<close> is the Number value for \<open>m\<close>: \<open>m\<close> itself
  below \<open>2 ^ 53\<close>, the nearest double beyond (9007199254740992 for the numeral of
  9007199254740993).
\<close>

theorem frequency_parsed_or_passed:
  "(PlantForm.wateringReminderFrequency values = JStr x \<longrightarrow>
      (\<exists>p. servicePayloads (newCalls s (onSubmit addPlant enc image' True values s)) = [p] \<and>
           getProp p ''wateringReminderFrequency'' = JNum (parseInt x)) \<and>
      (\<exists>p. servicePayloads (newCalls s (handleEdit editPlant enc plantId image' True values s)) = [p] \<and>
           getProp p ''wateringReminderFrequency'' = JNum (parseInt x))) \<and>
   (PlantForm.wateringReminderFrequency values = JNum n \<longrightarrow>
      (\<exists>p. servicePayloads (newCalls s (onSubmit addPlant enc image' True values s)) = [p] \<and>
           getProp p ''wateringReminderFrequency'' = JNum n) \<and>
      (\<exists>p. servicePayloads (newCalls s (handleEdit editPlant enc plantId image' True values s)) = [p] \<and>
           getProp p ''wateringReminderFrequency'' = JNum n)) \<and>
   parseInt (decimal m) = numberValue (int m) \<and>
   (m < 2 ^ 53 \<longrightarrow> parseInt (decimal m) = Num (int m))"
  by (simp add: onSubmit_payloads handleEdit_payloads addPlantPayload_frequency
      editPlantPayload_frequency coerceFrequency_simps parseInt_decimal numberValue_exact)

theorem frequency_parsed_or_passed_witness:
  "(\<exists>p. servicePayloads (newCalls initial
           (onSubmit accepts encodePicture None True
              \<lparr>name = str ''Fern'', description = None, image = None,
               wateringReminderFrequency = JStr (str ''14'')\<rparr> initial)) = [p] \<and>
        getProp p ''wateringReminderFrequency'' = JNum (Num 14)) \<and>
   (\<exists>p. servicePayloads (newCalls initial
           (handleEdit accepts encodePicture (str ''7'') None True
              \<lparr>name = str ''Fern'', description = None, image = None,
               wateringReminderFrequency = JStr (str ''14'')\<rparr> initial)) = [p] \<and>
        getProp p ''wateringReminderFrequency'' = JNum (Num 14)) \<and>
   (\<exists>p. servicePayloads (newCalls initial
           (onSubmit accepts encodePicture None True
              \<lparr>name = str ''Fern'', description = None, image = None,
               wateringReminderFrequency = JNum (Num 3)\<rparr> initial)) = [p] \<and>
        getProp p ''wateringReminderFrequency'' = JNum (Num 3)) \<and>
   decimal 14 = str ''14'' \<and>
   (14 :: nat) < 2 ^ 53 \<and>
   parseInt (decimal 14) = Num 14 \<and>
   (\<exists>p. servicePayloads (newCalls initial
           (onSubmit accepts encodePicture None True
              \<lparr>name = str ''Fern'', description = None, image = None,
               wateringReminderFrequency = JStr (decimal 9007199254740993)\<rparr> initial)) = [p] \<and>
        getProp p ''wateringReminderFrequency'' = JNum (Num 9007199254740992))"
proof -
  have d: "decimal 14 = str ''14''"
    by (simp add: decimal.simps [of 14] decimal.simps [of "Suc 0"] digitChar_def str_def)
  let ?text = "\<lparr>name = str ''Fern'', description = None, image = None,
                wateringReminderFrequency = JStr (str ''14'')\<rparr>"
  have small: "(14 :: nat) < 2 ^ 53"
    by simp
  from frequency_parsed_or_passed
    [of ?text "str ''14''" initial accepts encodePicture None accepts "str ''7''" "Num 3" 14]
  have "(14 :: nat) < 2 ^ 53 \<longrightarrow> parseInt (decimal 14) = Num (int 14)"
    by blast
  with small have e: "parseInt (decimal 14) = Num 14"
    by simp
  then have p: "parseInt (str ''14'') = Num 14"
    by (simp add: d)
  have b: "bitLength 9007199254740993 = 54"
    by (simp add: bitLength.simps)
  have r: "parseInt (decimal 9007199254740993) = Num 9007199254740992"
    using parseInt_decimal [of 9007199254740993]
    by (simp add: numberValue_def roundToDouble_def b)
  let ?number = "\<lparr>name = str ''Fern'', description = None, image = None,
                  wateringReminderFrequency = JNum (Num 3)\<rparr>"
  let ?long = "\<lparr>name = str ''Fern'', description = None, image = None,
                wateringReminderFrequency = JStr (decimal 9007199254740993)\<rparr>"
  have "PlantForm.wateringReminderFrequency ?text = JStr (str ''14'')"
    by simp
  with frequency_parsed_or_passed
    [of ?text "str ''14''" initial accepts encodePicture None accepts "str ''7''" "Num 3" 14]
  have c1: "(\<exists>p. servicePayloads (newCalls initial
                 (onSubmit accepts encodePicture None True ?text initial)) = [p] \<and>
               getProp p ''wateringReminderFrequency'' = JNum (Num 14)) \<and>
            (\<exists>p. servicePayloads (newCalls initial
                 (handleEdit accepts encodePicture (str ''7'') None True ?text initial)) = [p] \<and>
               getProp p ''wateringReminderFrequency'' = JNum (Num 14))"
    unfolding p by blast
  have "PlantForm.wateringReminderFrequency ?number = JNum (Num 3)"
    by simp
  with frequency_parsed_or_passed
    [of ?number "str ''14''" initial accepts encodePicture None accepts "str ''7''" "Num 3" 14]
  have c2: "\<exists>p. servicePayloads (newCalls initial
                 (onSubmit accepts encodePicture None True ?number initial)) = [p] \<and>
               getProp p ''wateringReminderFrequency'' = JNum (Num 3)"
    by blast
  have "PlantForm.wateringReminderFrequency ?long = JStr (decimal 9007199254740993)"
    by simp
  with frequency_parsed_or_passed
    [of ?long "decimal 9007199254740993" initial accepts encodePicture None accepts "str ''7''"
        "Num 3" 14]
  have c3: "\<exists>p. servicePayloads (newCalls initial
                 (onSubmit accepts encodePicture None True ?long initial)) = [p] \<and>
               getProp p ''wateringReminderFrequency'' = JNum (Num 9007199254740992)"
    unfolding r by blast
  from c1 c2 d small e c3 show ?thesis
    by blast
qed

text \<open>
  C7: when the remote call of a submission throws, the handler calls the plant service
  once and shows exactly one notification: the file-type one if the thrown value is
  \<^verbatim>\<open>INVALID_FILE\<close>, the general one (a message and a description) otherwise. The two
  notifications differ, and nothing is called again.
\<close>

theorem failed_submission_notifies_once:
  "(addPlant (addPlantPayload (base64EncodedImage enc image') chk values) = Inl err \<longrightarrow>
      newCalls s (onSubmit addPlant enc image' chk values s) =
        [AddPlantCall (addPlantPayload (base64EncodedImage enc image') chk values),
         ShowToast (if err = INVALID_FILE then invalidFileToast else generalErrorToast)]) \<and>
   (editPlant (editPlantPayload plantId (base64EncodedImage enc image') chk values) = Inl err \<longrightarrow>
      newCalls s (handleEdit editPlant enc plantId image' chk values s) =
        [EditPlantCall (editPlantPayload plantId (base64EncodedImage enc image') chk values),
         ShowToast (if err = INVALID_FILE then invalidFileToast else generalErrorToast)]) \<and>
   invalidFileToast \<noteq> generalErrorToast \<and>
   text1 invalidFileToast = T ''errors.invalidFileType'' \<and>
   text1 generalErrorToast = T ''errors.general'' \<and>
   text2 generalErrorToast = Some (T ''errors.generalDescription'')"
  by (cases err)
    (simp_all add: onSubmit_newCalls handleEdit_newCalls invalidFileToast_def
      generalErrorToast_def)

theorem failed_submission_notifies_once_witness:
  "toasts (newCalls initial
     (onSubmit (rejects INVALID_FILE) encodePicture (Some (str ''file:///picked.heic'')) False
        \<lparr>name = str ''Fern'', description = None, image = None,
         wateringReminderFrequency = JNum (Num 1)\<rparr> initial)) = [invalidFileToast] \<and>
   toasts (newCalls initial
     (handleEdit (rejects INVALID_FILE) encodePicture (str ''7'')
        (Some (str ''file:///picked.heic'')) False
        \<lparr>name = str ''Fern'', description = None, image = None,
         wateringReminderFrequency = JNum (Num 1)\<rparr> initial)) = [invalidFileToast] \<and>
   toasts (newCalls initial
     (onSubmit (rejects (Other ())) encodePicture None False
        \<lparr>name = str ''Fern'', description = None, image = None,
         wateringReminderFrequency = JNum (Num 1)\<rparr> initial)) = [generalErrorToast] \<and>
   toasts (newCalls initial
     (handleEdit (rejects (Other ())) encodePicture (str ''7'') None
        False
        \<lparr>name = str ''Fern'', description = None, image = None,
         wateringReminderFrequency = JNum (Num 1)\<rparr> initial)) = [generalErrorToast]"
  using failed_submission_notifies_once
      [of "rejects INVALID_FILE" encodePicture "Some (str ''file:///picked.heic'')" False
          "\<lparr>name = str ''Fern'', description = None, image = None,
            wateringReminderFrequency = JNum (Num 1)\<rparr>" INVALID_FILE initial
          "rejects INVALID_FILE" "str ''7''"]
    failed_submission_notifies_once
      [of "rejects (Other ())" encodePicture None False
          "\<lparr>name = str ''Fern'', description = None, image = None,
            wateringReminderFrequency = JNum (Num 1)\<rparr>" "Other ()" initial
          "rejects (Other ())" "str ''7''"]
  by (simp add: rejects_def)

text \<open>
  C8: after \<^verbatim>\<open>onSubmit\<close> and after \<^verbatim>\<open>handleEdit\<close> the loading flag is false, whatever the
  remote call does and whatever the flag was before.
\<close>

theorem loading_cleared_after_submission:
  "loading (onSubmit addPlant enc image' chk values s) = False \<and>
   loading (handleEdit editPlant enc plantId image' chk values s) = False"
  by (simp add: onSubmit_loading handleEdit_loading)

theorem loading_cleared_after_submission_witness:
  "\<not> loading (onSubmit (rejects (Other ())) encodePicture None False
        \<lparr>name = str ''Fern'', description = None, image = None,
         wateringReminderFrequency = JNum (Num 1)\<rparr> (initial\<lparr>loading := True\<rparr>)) \<and>
   \<not> loading (handleEdit (rejects INVALID_FILE) encodePicture
        (str ''7'') None False
        \<lparr>name = str ''Fern'', description = None, image = None,
         wateringReminderFrequency = JNum (Num 1)\<rparr> (initial\<lparr>loading := True\<rparr>))"
  using loading_cleared_after_submission
      [of "rejects (Other ())" encodePicture None False
          "\<lparr>name = str ''Fern'', description = None, image = None,
            wateringReminderFrequency = JNum (Num 1)\<rparr>" "initial\<lparr>loading := True\<rparr>"
          "rejects INVALID_FILE" "str ''7''"]
  by simp

text \<open>
  C9: on the edit screen the delete helper button only opens the confirmation modal: it
  changes \<^verbatim>\<open>showModal\<close> and calls nothing. In every sequence of events from the mount, a
  call of \<^verbatim>\<open>deletePlant\<close> was made by an acceptance of the modal, while the modal was shown
  and after the helper button was pressed.
\<close>

theorem delete_only_after_confirmation:
  "step enc plantId selectedPlant s PressDeleteHelper = s\<lparr>showModal := True\<rparr> \<and>
   (DeletePlantCall pid \<in> set (calls (run enc plantId selectedPlant es)) \<longrightarrow>
      (\<exists>es1 outcome es2. es = es1 @ ModalConfirm outcome # es2 \<and>
         showModal (run enc plantId selectedPlant es1) \<and> PressDeleteHelper \<in> set es1))"
  using run_delete [of pid enc plantId selectedPlant es]
  by (auto simp: setShowModal_def)

theorem delete_only_after_confirmation_witness:
  "calls (run encodePicture (id' fern) (Some fern)
      [PressDeleteHelper, ModalConfirm (Inr () :: unit thrown + unit)]) =
     [DeletePlantCall (id' fern), Navigate ''home'',
      ShowToast (successToast ''pages.plants.edit.plantDeletedSuccess'')] \<and>
   (\<exists>es1 outcome es2.
      [PressDeleteHelper, ModalConfirm (Inr () :: unit thrown + unit)] =
        es1 @ ModalConfirm outcome # es2 \<and>
      showModal (run encodePicture (id' fern) (Some fern) es1) \<and>
      PressDeleteHelper \<in> set es1) \<and>
   calls (run encodePicture (id' fern) (Some fern)
      [PressDeleteHelper, ModalCancel, ModalConfirm (Inr () :: unit thrown + unit),
       PressDeleteHelper]) = []"
proof -
  have c: "calls (run encodePicture (id' fern) (Some fern)
      [PressDeleteHelper, ModalConfirm (Inr () :: unit thrown + unit)]) =
     [DeletePlantCall (id' fern), Navigate ''home'',
      ShowToast (successToast ''pages.plants.edit.plantDeletedSuccess'')]"
    by (simp add: run_def mount_def setShowModal_def handleDelete_def perform_def)
  have n: "calls (run encodePicture (id' fern) (Some fern)
      [PressDeleteHelper, ModalCancel, ModalConfirm (Inr () :: unit thrown + unit),
       PressDeleteHelper]) = []"
    by (simp add: run_def mount_def setShowModal_def)
  from c have "DeletePlantCall (id' fern) \<in> set (calls (run encodePicture (id' fern)
      (Some fern) [PressDeleteHelper, ModalConfirm (Inr () :: unit thrown + unit)]))"
    by simp
  with delete_only_after_confirmation
    [of encodePicture "id' fern" "Some fern" mount "id' fern"
        "[PressDeleteHelper, ModalConfirm (Inr () :: unit thrown + unit)]"]
  have "\<exists>es1 outcome es2.
      [PressDeleteHelper, ModalConfirm (Inr () :: unit thrown + unit)] =
        es1 @ ModalConfirm outcome # es2 \<and>
      showModal (run encodePicture (id' fern) (Some fern) es1) \<and>
      PressDeleteHelper \<in> set es1"
    by blast
  with c n show ?thesis by blast
qed

text \<open>
  C10: the coercion of a string frequency has no failure branch. A non-numeric string
  parses to NaN, and with the reminders checkbox checked a submission on either screen
  whose frequency is a string that parses to NaN passes a payload that has the key
  \<^verbatim>\<open>wateringReminderFrequency\<close> with the value NaN, which is no integer.
\<close>

theorem nan_frequency_is_sent:
  "(nonNumeric x \<longrightarrow> parseInt x = NaN) \<and>
   (PlantForm.wateringReminderFrequency values = JStr x \<and> parseInt x = NaN \<longrightarrow>
      (\<exists>p. servicePayloads (newCalls s (onSubmit addPlant enc image' True values s)) = [p] \<and>
           hasOwnProperty p ''wateringReminderFrequency'' \<and>
           getProp p ''wateringReminderFrequency'' = JNum NaN) \<and>
      (\<exists>p. servicePayloads (newCalls s (handleEdit editPlant enc plantId image' True values s)) = [p] \<and>
           hasOwnProperty p ''wateringReminderFrequency'' \<and>
           getProp p ''wateringReminderFrequency'' = JNum NaN)) \<and>
   JNum NaN \<noteq> JNum (Num n)"
  by (simp add: nonNumeric_parseInt onSubmit_payloads handleEdit_payloads
      addPlantPayload_frequency editPlantPayload_frequency addPlantPayload_key
      editPlantPayload_key coerceFrequency_simps)

theorem nan_frequency_is_sent_witness:
  "nonNumeric (str ''often'') \<and>
   (\<exists>p. servicePayloads (newCalls initial
           (onSubmit accepts encodePicture None True
              \<lparr>name = str ''Fern'', description = None, image = None,
               wateringReminderFrequency = JStr (str ''often'')\<rparr> initial)) = [p] \<and>
        hasOwnProperty p ''wateringReminderFrequency'' \<and>
        getProp p ''wateringReminderFrequency'' = JNum NaN) \<and>
   (\<exists>p. servicePayloads (newCalls initial
           (handleEdit accepts encodePicture (str ''7'') None True
              \<lparr>name = str ''Fern'', description = None, image = None,
               wateringReminderFrequency = JStr (str ''often'')\<rparr> initial)) = [p] \<and>
        hasOwnProperty p ''wateringReminderFrequency'' \<and>
        getProp p ''wateringReminderFrequency'' = JNum NaN)"
proof -
  have non: "nonNumeric (str ''often'')"
    by (simp add: nonNumeric_def str_def isWhiteSpace_def isDecimalDigit_def)
  with nan_frequency_is_sent
    [of "str ''often''"
        "\<lparr>name = str ''Fern'', description = None, image = None,
          wateringReminderFrequency = JStr (str ''often'')\<rparr>" initial
        accepts encodePicture None
        accepts "str ''7''" 1]
  show ?thesis by simp
qed

end
